theory Spec2Isabelle
  imports Complex_Main "HOL-Library.Word"
begin

section \<open>Voice workers: line protocol and audio pipeline\<close>

text \<open>
  A shallow embedding of \<^verbatim>\<open>scripts/voice/whisper_worker.py\<close> and
  \<^verbatim>\<open>scripts/voice/piper_worker.py\<close>.

  Conventions of the embedding:
  \<^item> a Python \<^verbatim>\<open>float\<close> and a NumPy \<^verbatim>\<open>float32\<close> are modelled by a
    real number: arithmetic is exact, rounding, infinities and NaN are not modelled;
  \<^item> a raised exception is the \<open>Inl\<close> of a sum type, the value returned is the \<open>Inr\<close>;
    only subclasses of \<^verbatim>\<open>Exception\<close> are modelled;
  \<^item> what the workers import (the JSON codec, base64, the \<^verbatim>\<open>wave\<close> module, the
    speech models, the clock, the process environment) is a parameter of the model,
    collected in a record of functions;
  \<^item> a line written by \<^verbatim>\<open>emit\<close> is the dictionary handed to it, as the list of
    its items in the order of the dictionary literal.
\<close>

subsection \<open>Python values\<close>

datatype py_exception =
    ValueError string
  | TypeError string
  | AttributeError string
  | OverflowError string
  | ZeroDivisionError string
  | RuntimeError string
  | LibraryError string

text \<open>\<^verbatim>\<open>str(error)\<close> of an exception built from one message.\<close>

fun exc_str :: "py_exception \<Rightarrow> string" where
  "exc_str (ValueError m) = m"
| "exc_str (TypeError m) = m"
| "exc_str (AttributeError m) = m"
| "exc_str (OverflowError m) = m"
| "exc_str (ZeroDivisionError m) = m"
| "exc_str (RuntimeError m) = m"
| "exc_str (LibraryError m) = m"

text \<open>What \<^verbatim>\<open>json.loads\<close> returns and \<^verbatim>\<open>json.dumps\<close> accepts. A \<open>JObj\<close> holds the
  items of a \<^verbatim>\<open>dict\<close>.\<close>

datatype json =
    JNull
  | JBool bool
  | JInt int
  | JFloat real
  | JStr string
  | JArr "json list"
  | JObj "(string \<times> json) list"

type_synonym pydict = "(string \<times> json) list"

text \<open>\<^verbatim>\<open>d.get(key)\<close> and \<^verbatim>\<open>d.get(key, default)\<close>.\<close>

definition dict_get_default :: "pydict \<Rightarrow> string \<Rightarrow> json \<Rightarrow> json" where
  "dict_get_default d k dflt = (case map_of d k of None \<Rightarrow> dflt | Some v \<Rightarrow> v)"

definition dict_get :: "pydict \<Rightarrow> string \<Rightarrow> json" where
  "dict_get d k = dict_get_default d k JNull"

text \<open>Truth value of a deserialised value (\<^verbatim>\<open>language or "en"\<close>).\<close>

fun truthy :: "json \<Rightarrow> bool" where
  "truthy JNull = False"
| "truthy (JBool b) = b"
| "truthy (JInt i) = (i \<noteq> 0)"
| "truthy (JFloat r) = (r \<noteq> 0)"
| "truthy (JStr s) = (s \<noteq> [])"
| "truthy (JArr xs) = (xs \<noteq> [])"
| "truthy (JObj d) = (d \<noteq> [])"

text \<open>\<^verbatim>\<open>str.isspace\<close> on the code points below 256, and \<^verbatim>\<open>str.strip()\<close>.\<close>

definition is_space :: "char \<Rightarrow> bool" where
  "is_space c = (of_char c \<in> {9, 10, 11, 12, 13, 28, 29, 30, 31, 32, 133, 160 :: nat})"

definition py_strip :: "string \<Rightarrow> string" where
  "py_strip s = rev (dropWhile is_space (rev (dropWhile is_space s)))"

text \<open>Decimal rendering of an integer (\<^verbatim>\<open>str(n)\<close>, and \<^verbatim>\<open>{n}\<close> in an f-string).\<close>

definition digit_char :: "nat \<Rightarrow> char" where
  "digit_char d = char_of (48 + d)"

function str_nat :: "nat \<Rightarrow> string" where
  "str_nat n = (if n < 10 then [digit_char n] else str_nat (n div 10) @ [digit_char (n mod 10)])"
  by pat_completeness auto
termination
  by (relation "measure id") auto

declare str_nat.simps [simp del]

definition str_int :: "int \<Rightarrow> string" where
  "str_int i = (if i < 0 then CHR ''-'' # str_nat (nat (- i)) else str_nat (nat i))"

subsection \<open>Confidence of a transcription\<close>

definition clamp :: "real \<Rightarrow> real \<Rightarrow> real \<Rightarrow> real" where
  "clamp v minimum maximum = max minimum (min maximum v)"

text \<open>A segment dictionary. A field is \<open>None\<close> when the key is missing, which is what
  the defaults of \<^verbatim>\<open>segment.get\<close> are for; the values are the floats and strings that
  the recognition model and the worker itself store there, on which \<^verbatim>\<open>float(...)\<close>
  and \<^verbatim>\<open>str(...)\<close> are the identity.\<close>

record segment =
  seg_start :: "real option"
  seg_end :: "real option"
  seg_text :: "string option"
  seg_confidence :: "real option"
  seg_avg_logprob :: "real option"
  seg_no_speech_prob :: "real option"

definition get_or :: "'a option \<Rightarrow> 'a \<Rightarrow> 'a" where
  "get_or field dflt = (case field of None \<Rightarrow> dflt | Some v \<Rightarrow> v)"

definition segment_confidence :: "segment \<Rightarrow> real" where
  "segment_confidence seg =
     (let avg_logprob = get_or (seg_avg_logprob seg) (- 0.7);
          no_speech_prob = get_or (seg_no_speech_prob seg) 0.0;
          log_prob_score = exp (min 0.0 avg_logprob)
      in clamp (log_prob_score * (1.0 - clamp no_speech_prob 0.0 1.0)) 0.0 1.0)"

text \<open>The weight that the loop of \<^verbatim>\<open>aggregate_confidence\<close> gives one segment.\<close>

definition segment_weight :: "segment \<Rightarrow> real" where
  "segment_weight seg =
     (let start = get_or (seg_start seg) 0.0;
          end_time = get_or (seg_end seg) start;
          text = get_or (seg_text seg) [];
          duration_weight = max 0.2 (end_time - start);
          text_weight = max 0.2 (real (length text) / 20.0)
      in duration_weight + text_weight)"

text \<open>One iteration of the loop, on the pair \<open>(weighted_sum, total_weight)\<close>.\<close>

definition aggregate_step :: "real \<Rightarrow> real \<times> real \<Rightarrow> segment \<Rightarrow> real \<times> real" where
  "aggregate_step fallback acc seg =
     (let confidence = get_or (seg_confidence seg) fallback;
          weight = segment_weight seg
      in (fst acc + confidence * weight, snd acc + weight))"

definition aggregate_sums :: "segment list \<Rightarrow> real \<Rightarrow> real \<times> real" where
  "aggregate_sums segments fallback = foldl (aggregate_step fallback) (0.0, 0.0) segments"

definition aggregate_confidence :: "segment list \<Rightarrow> real \<Rightarrow> real" where
  "aggregate_confidence segments fallback =
     (if segments = [] then clamp fallback 0.0 1.0
      else (let (weighted_sum, total_weight) = aggregate_sums segments fallback
            in if total_weight \<le> 0 then clamp fallback 0.0 1.0
               else clamp (weighted_sum / total_weight) 0.0 1.0))"

subsection \<open>Decoding a WAV buffer\<close>

type_synonym byte = "8 word"

definition exc_bind :: "py_exception + 'a \<Rightarrow> ('a \<Rightarrow> py_exception + 'b) \<Rightarrow> py_exception + 'b" where
  "exc_bind r f = (case r of Inl e \<Rightarrow> Inl e | Inr v \<Rightarrow> f v)"

text \<open>What the \<^verbatim>\<open>with wave.open(...)\<close> block reads from the buffer:
  \<^verbatim>\<open>getframerate()\<close>, \<^verbatim>\<open>getnchannels()\<close>, \<^verbatim>\<open>getsampwidth()\<close> and
  \<^verbatim>\<open>readframes(getnframes())\<close>.\<close>

record wav_file =
  framerate :: int
  nchannels :: nat
  sampwidth :: nat
  frame_bytes :: "byte list"

text \<open>\<^verbatim>\<open>np.frombuffer(frame_bytes, dtype=...)\<close>: the buffer is cut into items of the
  size of the type, least significant byte first; a buffer that is not a whole number
  of items is refused.\<close>

fun int16_items :: "byte list \<Rightarrow> int list" where
  "int16_items (b0 # b1 # rest) = sint (word_cat b1 b0 :: 16 word) # int16_items rest"
| "int16_items _ = []"

fun int32_items :: "byte list \<Rightarrow> int list" where
  "int32_items (b0 # b1 # b2 # b3 # rest) =
     sint (word_cat (word_cat b3 b2 :: 16 word) (word_cat b1 b0 :: 16 word) :: 32 word)
       # int32_items rest"
| "int32_items _ = []"

definition frombuffer :: "nat \<Rightarrow> (byte list \<Rightarrow> int list) \<Rightarrow> byte list \<Rightarrow> py_exception + int list" where
  "frombuffer itemsize items buf =
     (if length buf mod itemsize \<noteq> 0
      then Inl (ValueError ''buffer size must be a multiple of element size'')
      else Inr (items buf))"

text \<open>\<^verbatim>\<open>audio.reshape(-1, channels)\<close> and \<^verbatim>\<open>.mean(axis=1)\<close>.\<close>

definition reshape_rows :: "real list \<Rightarrow> nat \<Rightarrow> py_exception + real list list" where
  "reshape_rows audio channels =
     (if length audio mod channels \<noteq> 0
      then Inl (ValueError ''cannot reshape array'')
      else Inr (map (\<lambda>i. take channels (drop (i * channels) audio))
                  [0 ..< length audio div channels]))"

definition mean_rows :: "real list list \<Rightarrow> real list" where
  "mean_rows rows = map (\<lambda>row. sum_list row / real (length row)) rows"

definition wav_bytes_to_float32 ::
  "(byte list \<Rightarrow> py_exception + wav_file) \<Rightarrow> byte list \<Rightarrow> py_exception + (real list \<times> int)" where
  "wav_bytes_to_float32 wave_open wav_bytes =
     exc_bind (wave_open wav_bytes) (\<lambda>wav.
       let sample_rate = framerate wav;
           channels = nchannels wav;
           sample_width = sampwidth wav
       in exc_bind
            (if sample_width = 1 then
               Inr (map (\<lambda>b. (real (unat b) - 128.0) / 128.0) (frame_bytes wav))
             else if sample_width = 2 then
               exc_bind (frombuffer 2 int16_items (frame_bytes wav))
                 (\<lambda>items. Inr (map (\<lambda>v. real_of_int v / 32768.0) items))
             else if sample_width = 4 then
               exc_bind (frombuffer 4 int32_items (frame_bytes wav))
                 (\<lambda>items. Inr (map (\<lambda>v. real_of_int v / 2147483648.0) items))
             else Inl (ValueError (''Unsupported WAV sample width: '' @ str_nat sample_width)))
            (\<lambda>audio.
               exc_bind
                 (if channels > 1
                  then exc_bind (reshape_rows audio channels) (\<lambda>rows. Inr (mean_rows rows))
                  else Inr audio)
                 (\<lambda>audio. Inr (audio, sample_rate))))"

subsection \<open>Linear resampling\<close>

text \<open>\<^verbatim>\<open>round(x)\<close> of a float: the nearest integer, a tie going to the even one.\<close>

definition py_round :: "real \<Rightarrow> int" where
  "py_round x =
     (let f = \<lfloor>x\<rfloor>; d = x - of_int f
      in if d < 1 / 2 then f
         else if 1 / 2 < d then f + 1
         else if even f then f else f + 1)"

text \<open>\<^verbatim>\<open>np.linspace(start, stop, num=num, endpoint=False)\<close>.\<close>

definition linspace :: "real \<Rightarrow> real \<Rightarrow> nat \<Rightarrow> real list" where
  "linspace start stop num =
     map (\<lambda>i. start + real i * ((stop - start) / real num)) [0 ..< num]"

text \<open>\<^verbatim>\<open>np.interp(x, xp, fp)\<close> at one point, for a non-empty increasing \<open>xp\<close> and an
  \<open>fp\<close> of the same length: the value of the first or last sample outside the range,
  the line between the two neighbours inside.\<close>

definition interp_at :: "real list \<Rightarrow> real list \<Rightarrow> real \<Rightarrow> real" where
  "interp_at xp fp x =
     (if x < hd xp then hd fp
      else if last xp < x then last fp
      else (let j = length (takeWhile (\<lambda>t. t \<le> x) xp) - 1
            in if j = length xp - 1 \<or> xp ! j = x then fp ! j
               else (fp ! (j + 1) - fp ! j) / (xp ! (j + 1) - xp ! j) * (x - xp ! j) + fp ! j))"

definition interp :: "real list \<Rightarrow> real list \<Rightarrow> real list \<Rightarrow> real list" where
  "interp xs xp fp = map (interp_at xp fp) xs"

definition resample_linear :: "real list \<Rightarrow> int \<Rightarrow> int \<Rightarrow> py_exception + real list" where
  "resample_linear audio from_rate to_rate =
     (if from_rate = to_rate \<or> length audio = 0 then Inr audio
      else if from_rate = 0 then Inl (ZeroDivisionError ''division by zero'')
      else (let duration = real (length audio) / real_of_int from_rate;
                new_length = max 1 (py_round (duration * real_of_int to_rate));
                old_times = linspace 0.0 duration (length audio);
                new_times = linspace 0.0 duration (nat new_length)
            in Inr (interp new_times old_times audio)))"

subsection \<open>What both workers share\<close>

text \<open>The line written by one \<^verbatim>\<open>emit\<close>, and the line read by one step of
  \<^verbatim>\<open>for raw_line in sys.stdin\<close>, in the order in which they happen.\<close>

datatype action = ReadLine string | Emit pydict

text \<open>The library under both workers: the process environment, \<^verbatim>\<open>json.loads\<close>,
  \<^verbatim>\<open>repr\<close> of a float, list or dictionary, and what the two readings of
  \<^verbatim>\<open>time.perf_counter\<close> around the model load and around one request give, in
  milliseconds.\<close>

record py_runtime =
  getenv :: "string \<Rightarrow> string option"
  json_loads :: "string \<Rightarrow> py_exception + json"
  py_repr :: "json \<Rightarrow> string"
  startup_ms :: int
  duration_ms :: "string \<Rightarrow> int"

text \<open>\<^verbatim>\<open>str(value)\<close>, which is also what an f-string writes for \<^verbatim>\<open>{value}\<close>.\<close>

definition py_str :: "'a py_runtime_scheme \<Rightarrow> json \<Rightarrow> string" where
  "py_str env v =
     (case v of
        JStr s \<Rightarrow> s
      | JNull \<Rightarrow> ''None''
      | JBool b \<Rightarrow> (if b then ''True'' else ''False'')
      | JInt i \<Rightarrow> str_int i
      | _ \<Rightarrow> py_repr env v)"

fun type_name :: "json \<Rightarrow> string" where
  "type_name JNull = ''NoneType''"
| "type_name (JBool b) = ''bool''"
| "type_name (JInt i) = ''int''"
| "type_name (JFloat r) = ''float''"
| "type_name (JStr s) = ''str''"
| "type_name (JArr xs) = ''list''"
| "type_name (JObj d) = ''dict''"

text \<open>\<^verbatim>\<open>payload.get\<close> on a value that is not a dictionary.\<close>

definition no_get_attribute :: "json \<Rightarrow> py_exception" where
  "no_get_attribute v =
     AttributeError ([CHR 0x27] @ type_name v @ [CHR 0x27] @ '' object has no attribute ''
                     @ [CHR 0x27] @ ''get'' @ [CHR 0x27])"

text \<open>The three-item dictionary of every failed response, and the one written by the
  \<^verbatim>\<open>except Exception\<close> clause around the handling of a line, with the value that
  \<^verbatim>\<open>request_id\<close> holds when the exception is raised.\<close>

definition failure :: "json \<Rightarrow> string \<Rightarrow> pydict" where
  "failure request_id message =
     [(''id'', request_id), (''success'', JBool False), (''error'', JStr message)]"

definition caught :: "(json \<times> py_exception) + pydict \<Rightarrow> pydict" where
  "caught r = (case r of Inr response \<Rightarrow> response
                       | Inl (request_id, error) \<Rightarrow> failure request_id (exc_str error))"

definition raised_with :: "json \<Rightarrow> py_exception + 'a \<Rightarrow> (json \<times> py_exception) + 'a" where
  "raised_with request_id r = (case r of Inl e \<Rightarrow> Inl (request_id, e) | Inr v \<Rightarrow> Inr v)"

subsection \<open>The recognition worker\<close>

datatype raw_segment = SegDict segment | NotADict

text \<open>The dictionary returned by \<^verbatim>\<open>model.transcribe\<close>, and the keyword arguments
  it is called with.\<close>

record transcription =
  res_text :: "string option"
  res_language :: "string option"
  res_segments :: "raw_segment list option"

record decode_options =
  opt_task :: string
  opt_temperature :: real
  opt_fp16 :: bool
  opt_verbose :: bool
  opt_language :: "string option"

record 'm whisper_env = py_runtime +
  load_model :: "string \<Rightarrow> string \<Rightarrow> py_exception + 'm"
  b64decode :: "string \<Rightarrow> py_exception + byte list"
  wave_open :: "byte list \<Rightarrow> py_exception + wav_file"
  transcribe :: "'m \<Rightarrow> real list \<Rightarrow> decode_options \<Rightarrow> py_exception + transcription"

definition normalize_segment :: "segment \<Rightarrow> segment" where
  "normalize_segment seg =
     (let confidence = segment_confidence seg
      in \<lparr> seg_start = Some (get_or (seg_start seg) 0.0),
           seg_end = Some (get_or (seg_end seg) 0.0),
           seg_text = Some (py_strip (get_or (seg_text seg) [])),
           seg_confidence = Some confidence,
           seg_avg_logprob = Some (get_or (seg_avg_logprob seg) (- 0.7)),
           seg_no_speech_prob = Some (get_or (seg_no_speech_prob seg) 0.0) \<rparr>)"

fun normalize_segments :: "raw_segment list \<Rightarrow> segment list" where
  "normalize_segments [] = []"
| "normalize_segments (NotADict # rest) = normalize_segments rest"
| "normalize_segments (SegDict seg # rest) = normalize_segment seg # normalize_segments rest"

definition float_item :: "string \<Rightarrow> real option \<Rightarrow> pydict" where
  "float_item k field = (case field of None \<Rightarrow> [] | Some v \<Rightarrow> [(k, JFloat v)])"

definition str_item :: "string \<Rightarrow> string option \<Rightarrow> pydict" where
  "str_item k field = (case field of None \<Rightarrow> [] | Some v \<Rightarrow> [(k, JStr v)])"

definition segment_json :: "segment \<Rightarrow> json" where
  "segment_json seg =
     JObj (float_item ''start'' (seg_start seg) @ float_item ''end'' (seg_end seg)
           @ str_item ''text'' (seg_text seg) @ float_item ''confidence'' (seg_confidence seg)
           @ float_item ''avg_logprob'' (seg_avg_logprob seg)
           @ float_item ''no_speech_prob'' (seg_no_speech_prob seg))"

text \<open>A request whose command and \<^verbatim>\<open>audio_b64\<close> were accepted: decode, resample,
  transcribe, and build the response.\<close>

definition whisper_transcribe ::
  "('m, 'a) whisper_env_scheme \<Rightarrow> 'm \<Rightarrow> string \<Rightarrow> json \<Rightarrow> pydict \<Rightarrow> string \<Rightarrow> py_exception + pydict" where
  "whisper_transcribe env model line request_id payload audio_b64 =
     exc_bind (b64decode env audio_b64) (\<lambda>audio_bytes.
     exc_bind (wav_bytes_to_float32 (wave_open env) audio_bytes) (\<lambda>(audio, sample_rate).
     exc_bind (resample_linear audio sample_rate 16000) (\<lambda>audio.
       let language = dict_get payload ''language'';
           decode_options =
             \<lparr> opt_task = ''transcribe'', opt_temperature = 0.0, opt_fp16 = False,
               opt_verbose = False,
               opt_language =
                 (case language of
                    JStr l \<Rightarrow> (if py_strip l \<noteq> [] then Some (py_strip l) else None)
                  | _ \<Rightarrow> None) \<rparr>
       in exc_bind (transcribe env model audio decode_options) (\<lambda>result.
            let text = py_strip (get_or (res_text result) []);
                language_out =
                  (case res_language result of
                     Some l \<Rightarrow> l
                   | None \<Rightarrow> (if truthy language then py_str env language else ''en''));
                raw_segments = (case res_segments result of None \<Rightarrow> [] | Some segs \<Rightarrow> segs);
                normalized_segments = normalize_segments raw_segments;
                fallback_confidence = (if text \<noteq> [] then 0.75 else 0.0);
                confidence = aggregate_confidence normalized_segments fallback_confidence
            in Inr [(''id'', request_id), (''success'', JBool True), (''text'', JStr text),
                    (''language'', JStr language_out), (''confidence'', JFloat confidence),
                    (''segments'', JArr (map segment_json normalized_segments)),
                    (''duration_ms'', JInt (duration_ms env line))]))))"

text \<open>The body of the \<^verbatim>\<open>try\<close> for one stripped, non-empty line: the response it
  emits, or the exception it raises with the value of \<^verbatim>\<open>request_id\<close> at that
  moment (\<open>None\<close> until \<^verbatim>\<open>payload.get("id")\<close> has returned).\<close>

definition whisper_try ::
  "('m, 'a) whisper_env_scheme \<Rightarrow> 'm \<Rightarrow> string \<Rightarrow> (json \<times> py_exception) + pydict" where
  "whisper_try env model line =
     (case json_loads env line of
        Inl error \<Rightarrow> Inl (JNull, error)
      | Inr (JObj payload) \<Rightarrow>
          (let request_id = dict_get payload ''id'';
               command = dict_get payload ''command''
           in if command \<noteq> JStr ''transcribe''
              then Inr (failure request_id (''Unsupported command: '' @ py_str env command))
              else (case dict_get payload ''audio_b64'' of
                      JStr audio_b64 \<Rightarrow>
                        (if length audio_b64 = 0
                         then Inr (failure request_id ''audio_b64 is required'')
                         else raised_with request_id
                                (whisper_transcribe env model line request_id payload audio_b64))
                    | _ \<Rightarrow> Inr (failure request_id ''audio_b64 is required'')))
      | Inr value \<Rightarrow> Inl (JNull, no_get_attribute value))"

text \<open>One iteration of the read loop: the lines emitted for one line of input.\<close>

definition whisper_line :: "('m, 'a) whisper_env_scheme \<Rightarrow> 'm \<Rightarrow> string \<Rightarrow> pydict list" where
  "whisper_line env model raw_line =
     (let line = py_strip raw_line
      in if line = [] then [] else [caught (whisper_try env model line)])"

fun whisper_serve :: "('m, 'a) whisper_env_scheme \<Rightarrow> 'm \<Rightarrow> string list \<Rightarrow> action list" where
  "whisper_serve env model [] = []"
| "whisper_serve env model (raw_line # rest) =
     ReadLine raw_line # map Emit (whisper_line env model raw_line) @ whisper_serve env model rest"

text \<open>\<^verbatim>\<open>main\<close> on the lines that standard input delivers until its end: what it
  does, in order, and the status it returns.\<close>

definition whisper_main :: "('m, 'a) whisper_env_scheme \<Rightarrow> string list \<Rightarrow> action list \<times> int" where
  "whisper_main env stdin =
     (let model_name = get_or (getenv env ''WHISPER_MODEL'') ''small'';
          device = get_or (getenv env ''WHISPER_DEVICE'') ''cpu''
      in case load_model env model_name device of
           Inl error \<Rightarrow>
             ([Emit [(''event'', JStr ''error''), (''success'', JBool False),
                     (''error'', JStr (''Failed to load Whisper model '' @ [CHR 0x27] @ model_name
                                      @ [CHR 0x27] @ '': '' @ exc_str error))]], 1)
         | Inr model \<Rightarrow>
             (Emit [(''event'', JStr ''ready''), (''success'', JBool True),
                    (''model'', JStr model_name), (''device'', JStr device),
                    (''startup_ms'', JInt (startup_ms env))]
                # whisper_serve env model stdin, 0))"

subsection \<open>The synthesis worker\<close>

record synthesis_config =
  length_scale :: real
  volume :: real

text \<open>The library under the synthesis worker: \<^verbatim>\<open>PiperVoice.load\<close>, the parsing done
  by \<^verbatim>\<open>float\<close> on a string, \<^verbatim>\<open>voice.synthesize_wav\<close> writing into the
  \<^verbatim>\<open>wave\<close> writer (as the bytes the writer leaves in the buffer),
  \<^verbatim>\<open>getframerate\<close> of a WAV buffer, and \<^verbatim>\<open>base64.b64encode\<close>.\<close>

record 'v piper_env = py_runtime +
  piper_load :: "string \<Rightarrow> string option \<Rightarrow> bool \<Rightarrow> py_exception + 'v"
  float_of_str :: "string \<Rightarrow> real option"
  voice_synthesize_wav :: "'v \<Rightarrow> string \<Rightarrow> synthesis_config \<Rightarrow> py_exception + byte list"
  wave_framerate :: "byte list \<Rightarrow> py_exception + int"
  b64encode :: "byte list \<Rightarrow> string"

text \<open>\<^verbatim>\<open>float(value)\<close> on a deserialised value. An integer beyond the range of a
  double raises \<^verbatim>\<open>OverflowError\<close>.\<close>

definition py_float :: "('v, 'a) piper_env_scheme \<Rightarrow> json \<Rightarrow> py_exception + real" where
  "py_float env v =
     (case v of
        JFloat r \<Rightarrow> Inr r
      | JInt i \<Rightarrow>
          (if 2 ^ 1024 - 2 ^ 970 \<le> \<bar>i\<bar>
           then Inl (OverflowError ''int too large to convert to float'')
           else Inr (real_of_int i))
      | JBool b \<Rightarrow> Inr (if b then 1.0 else 0.0)
      | JStr s \<Rightarrow>
          (case float_of_str env s of
             None \<Rightarrow> Inl (ValueError ''could not convert string to float'')
           | Some r \<Rightarrow> Inr r)
      | _ \<Rightarrow> Inl (TypeError ''float() argument must be a string or a real number''))"

definition to_float :: "('v, 'a) piper_env_scheme \<Rightarrow> json \<Rightarrow> real \<Rightarrow> py_exception + real" where
  "to_float env v fallback =
     (case py_float env v of
        Inr r \<Rightarrow> Inr r
      | Inl (TypeError m) \<Rightarrow> Inr fallback
      | Inl (ValueError m) \<Rightarrow> Inr fallback
      | Inl error \<Rightarrow> Inl error)"

text \<open>\<^verbatim>\<open>str.lower\<close> on the code points below 256.\<close>

definition py_lower_char :: "char \<Rightarrow> char" where
  "py_lower_char c =
     (let n = (of_char c :: nat)
      in if (65 \<le> n \<and> n \<le> 90) \<or> (192 \<le> n \<and> n \<le> 222 \<and> n \<noteq> 215)
         then char_of (n + 32) else c)"

definition py_lower :: "string \<Rightarrow> string" where
  "py_lower s = map py_lower_char s"

definition load_voice :: "('v, 'a) piper_env_scheme \<Rightarrow> py_exception + 'v" where
  "load_voice env =
     (case getenv env ''PIPER_MODEL_PATH'' of
        None \<Rightarrow> Inl (RuntimeError ''PIPER_MODEL_PATH is required'')
      | Some model_path \<Rightarrow>
          (if model_path = [] then Inl (RuntimeError ''PIPER_MODEL_PATH is required'')
           else (let config_path =
                       (case getenv env ''PIPER_CONFIG_PATH'' of
                          None \<Rightarrow> None
                        | Some c \<Rightarrow> (if c = [] then None else Some c));
                     use_cuda = (py_lower (get_or (getenv env ''PIPER_USE_CUDA'') ''false'') = ''true'')
                 in piper_load env model_path config_path use_cuda)))"

definition synthesize_wav ::
  "('v, 'a) piper_env_scheme \<Rightarrow> 'v \<Rightarrow> string \<Rightarrow> real \<Rightarrow> real \<Rightarrow> py_exception + byte list" where
  "synthesize_wav env voice text ls vol =
     (let config = \<lparr> length_scale = ls, volume = vol \<rparr>
      in voice_synthesize_wav env voice text config)"

definition get_sample_rate :: "('v, 'a) piper_env_scheme \<Rightarrow> byte list \<Rightarrow> py_exception + int" where
  "get_sample_rate env wav_bytes = wave_framerate env wav_bytes"

text \<open>A request whose command and text were accepted.\<close>

definition piper_synthesize ::
  "('v, 'a) piper_env_scheme \<Rightarrow> 'v \<Rightarrow> string \<Rightarrow> json \<Rightarrow> pydict \<Rightarrow> string \<Rightarrow> py_exception + pydict" where
  "piper_synthesize env voice line request_id payload text =
     exc_bind (to_float env (dict_get payload ''length_scale'') 0.85) (\<lambda>ls.
     exc_bind (to_float env (dict_get payload ''volume'') 1.0) (\<lambda>vol.
     exc_bind (synthesize_wav env voice text ls vol) (\<lambda>wav_bytes.
     exc_bind (get_sample_rate env wav_bytes) (\<lambda>sample_rate.
       Inr [(''id'', request_id), (''success'', JBool True),
            (''audio_b64'', JStr (b64encode env wav_bytes)),
            (''sample_rate'', JInt sample_rate),
            (''duration_ms'', JInt (duration_ms env line))]))))"

definition piper_try ::
  "('v, 'a) piper_env_scheme \<Rightarrow> 'v \<Rightarrow> string \<Rightarrow> (json \<times> py_exception) + pydict" where
  "piper_try env voice line =
     (case json_loads env line of
        Inl error \<Rightarrow> Inl (JNull, error)
      | Inr (JObj payload) \<Rightarrow>
          (let request_id = dict_get payload ''id'';
               command = dict_get payload ''command''
           in if command \<noteq> JStr ''synthesize''
              then Inr (failure request_id (''Unsupported command: '' @ py_str env command))
              else (let text = py_strip (py_str env (dict_get_default payload ''text'' (JStr [])))
                    in if text = []
                       then Inr (failure request_id ''Text cannot be empty'')
                       else raised_with request_id
                              (piper_synthesize env voice line request_id payload text)))
      | Inr value \<Rightarrow> Inl (JNull, no_get_attribute value))"

definition piper_line :: "('v, 'a) piper_env_scheme \<Rightarrow> 'v \<Rightarrow> string \<Rightarrow> pydict list" where
  "piper_line env voice raw_line =
     (let line = py_strip raw_line
      in if line = [] then [] else [caught (piper_try env voice line)])"

fun piper_serve :: "('v, 'a) piper_env_scheme \<Rightarrow> 'v \<Rightarrow> string list \<Rightarrow> action list" where
  "piper_serve env voice [] = []"
| "piper_serve env voice (raw_line # rest) =
     ReadLine raw_line # map Emit (piper_line env voice raw_line) @ piper_serve env voice rest"

definition piper_main :: "('v, 'a) piper_env_scheme \<Rightarrow> string list \<Rightarrow> action list \<times> int" where
  "piper_main env stdin =
     (case load_voice env of
        Inl error \<Rightarrow>
          ([Emit [(''event'', JStr ''error''), (''success'', JBool False),
                  (''error'', JStr (''Failed to load Piper voice: '' @ exc_str error))]], 1)
      | Inr voice \<Rightarrow>
          (Emit [(''event'', JStr ''ready''), (''success'', JBool True),
                 (''startup_ms'', JInt (startup_ms env))]
             # piper_serve env voice stdin, 0))"

subsection \<open>Averaging channels, as the specification words it\<close>


subsection \<open>Sample environments\<close>

text \<open>Concrete libraries on which the theorems below are instantiated: a JSON reader that
  knows four lines, a recognition model that hears one segment, a voice that writes two
  bytes.\<close>

definition quoted :: "string \<Rightarrow> string" where
  "quoted s = [CHR 0x22] @ s @ [CHR 0x22]"

definition transcribe_line :: string where
  "transcribe_line =
     ''{'' @ quoted ''id'' @ '': '' @ quoted ''r1'' @ '', '' @ quoted ''command'' @ '': ''
       @ quoted ''transcribe'' @ '', '' @ quoted ''audio_b64'' @ '': '' @ quoted ''AEAAwA=='' @ ''}''"

definition synthesize_line :: string where
  "synthesize_line =
     ''{'' @ quoted ''id'' @ '': '' @ quoted ''1'' @ '', '' @ quoted ''command'' @ '': ''
       @ quoted ''synthesize'' @ '', '' @ quoted ''text'' @ '': '' @ quoted ''hello'' @ ''}''"

definition sample_loads :: "string \<Rightarrow> py_exception + json" where
  "sample_loads line =
     (if line = ''{}'' then Inr (JObj [])
      else if line = ''[1]'' then Inr (JArr [JInt 1])
      else if line = transcribe_line then
        Inr (JObj [(''id'', JStr ''r1''), (''command'', JStr ''transcribe''),
                   (''audio_b64'', JStr ''AEAAwA=='')])
      else if line = synthesize_line then
        Inr (JObj [(''id'', JStr ''1''), (''command'', JStr ''synthesize''),
                   (''text'', JStr ''hello'')])
      else Inl (ValueError ''Expecting value: line 1 column 1 (char 0)''))"

definition sample_wav :: wav_file where
  "sample_wav = \<lparr> framerate = 16000, nchannels = 2, sampwidth = 2,
                  frame_bytes = [0x00, 0x40, 0x00, 0xC0] \<rparr>"

definition sample_segment :: segment where
  "sample_segment = \<lparr> seg_start = Some 0.0, seg_end = Some 1.5, seg_text = Some '' hi'',
                      seg_confidence = None, seg_avg_logprob = Some 0.0,
                      seg_no_speech_prob = Some 0.0 \<rparr>"

definition sample_whisper :: "unit whisper_env" where
  "sample_whisper =
     \<lparr> getenv = (\<lambda>name. None),
       json_loads = sample_loads,
       py_repr = (\<lambda>v. ''[1]''),
       startup_ms = 1200,
       duration_ms = (\<lambda>line. 35),
       load_model = (\<lambda>name device. Inr ()),
       b64decode = (\<lambda>text. Inr [0x00, 0x40, 0x00, 0xC0]),
       wave_open = (\<lambda>buf. Inr sample_wav),
       transcribe = (\<lambda>model audio options.
          Inr \<lparr> res_text = Some '' hi'', res_language = Some ''en'',
                res_segments = Some [SegDict sample_segment] \<rparr>) \<rparr>"

definition broken_whisper :: "unit whisper_env" where
  "broken_whisper =
     sample_whisper \<lparr> load_model := (\<lambda>name device. Inl (RuntimeError ''model not found'')) \<rparr>"

definition sample_piper :: "unit piper_env" where
  "sample_piper =
     \<lparr> getenv = (\<lambda>name. if name = ''PIPER_MODEL_PATH'' then Some ''voice.onnx'' else None),
       json_loads = sample_loads,
       py_repr = (\<lambda>v. ''[1]''),
       startup_ms = 800,
       duration_ms = (\<lambda>line. 120),
       piper_load = (\<lambda>model_path config_path use_cuda. Inr ()),
       float_of_str = (\<lambda>text. None),
       voice_synthesize_wav = (\<lambda>voice text config. Inr [0x52, 0x49]),
       wave_framerate = (\<lambda>buf. Inr 22050),
       b64encode = (\<lambda>buf. ''Ukk='') \<rparr>"

definition broken_piper :: "unit piper_env" where
  "broken_piper = sample_piper \<lparr> getenv := (\<lambda>name. None) \<rparr>"

section \<open>Properties\<close>

subsection \<open>Blank lines\<close>

lemma dropWhile_all_iff: "(\<forall>x\<in>set (dropWhile P s). P x) \<longleftrightarrow> dropWhile P s = []"
proof
  assume all: "\<forall>x\<in>set (dropWhile P s). P x"
  show "dropWhile P s = []"
  proof (rule ccontr)
    assume ne: "dropWhile P s \<noteq> []"
    then have "\<not> P (hd (dropWhile P s))" by (rule hd_dropWhile)
    moreover have "hd (dropWhile P s) \<in> set (dropWhile P s)" using ne by simp
    ultimately show False using all by blast
  qed
next
  assume e: "dropWhile P s = []"
  show "\<forall>x\<in>set (dropWhile P s). P x" unfolding e by simp
qed

lemma py_strip_empty_iff: "py_strip s = [] \<longleftrightarrow> (\<forall>c\<in>set s. is_space c)"
proof -
  have "py_strip s = [] \<longleftrightarrow> (\<forall>x\<in>set (dropWhile is_space s). is_space x)"
    by (simp add: py_strip_def dropWhile_eq_Nil_conv)
  also have "\<dots> \<longleftrightarrow> dropWhile is_space s = []" by (rule dropWhile_all_iff)
  also have "\<dots> \<longleftrightarrow> (\<forall>c\<in>set s. is_space c)" by (simp add: dropWhile_eq_Nil_conv)
  finally show ?thesis .
qed

lemma whisper_line_length:
  "length (whisper_line env model raw_line) = (if py_strip raw_line = [] then 0 else 1)"
  by (simp add: whisper_line_def Let_def)

lemma piper_line_length:
  "length (piper_line env voice raw_line) = (if py_strip raw_line = [] then 0 else 1)"
  by (simp add: piper_line_def Let_def)

text \<open>C10. A line that is empty or all whitespace writes nothing in either worker: the
  loop only reads it and goes on to the next line. Conversely a line writes something
  only if it is non-empty after stripping, and then it writes exactly one line.\<close>

theorem blank_line_writes_nothing:
  "((\<forall>c\<in>set raw_line. is_space c) \<longrightarrow>
      whisper_line wenv model raw_line = [] \<and>
      piper_line penv voice raw_line = [] \<and>
      whisper_serve wenv model (raw_line # rest) = ReadLine raw_line # whisper_serve wenv model rest \<and>
      piper_serve penv voice (raw_line # rest) = ReadLine raw_line # piper_serve penv voice rest)
   \<and> (whisper_line wenv model raw_line \<noteq> [] \<longrightarrow>
        py_strip raw_line \<noteq> [] \<and> length (whisper_line wenv model raw_line) = 1)
   \<and> (piper_line penv voice raw_line \<noteq> [] \<longrightarrow>
        py_strip raw_line \<noteq> [] \<and> length (piper_line penv voice raw_line) = 1)"
proof (intro conjI impI)
  assume "\<forall>c\<in>set raw_line. is_space c"
  then have blank: "py_strip raw_line = []" by (simp only: py_strip_empty_iff)
  show w: "whisper_line wenv model raw_line = []" by (simp add: whisper_line_def blank)
  show p: "piper_line penv voice raw_line = []" by (simp add: piper_line_def blank)
  show "whisper_serve wenv model (raw_line # rest) = ReadLine raw_line # whisper_serve wenv model rest"
    by (simp add: w)
  show "piper_serve penv voice (raw_line # rest) = ReadLine raw_line # piper_serve penv voice rest"
    by (simp add: p)
next
  assume "whisper_line wenv model raw_line \<noteq> []"
  then show "py_strip raw_line \<noteq> []" by (auto simp: whisper_line_def)
  then show "length (whisper_line wenv model raw_line) = 1" by (simp add: whisper_line_length)
next
  assume "piper_line penv voice raw_line \<noteq> []"
  then show "py_strip raw_line \<noteq> []" by (auto simp: piper_line_def)
  then show "length (piper_line penv voice raw_line) = 1" by (simp add: piper_line_length)
qed

theorem blank_line_writes_nothing_witness:
  "whisper_line sample_whisper () [CHR 0x20, CHR 0x09, CHR 0x0A] = [] \<and>
   piper_line sample_piper () [CHR 0x20, CHR 0x09, CHR 0x0A] = [] \<and>
   whisper_serve sample_whisper () [ [CHR 0x20, CHR 0x09, CHR 0x0A]] = [ReadLine [CHR 0x20, CHR 0x09, CHR 0x0A]] \<and>
   piper_serve sample_piper () [ [CHR 0x20, CHR 0x09, CHR 0x0A]] = [ReadLine [CHR 0x20, CHR 0x09, CHR 0x0A]]"
proof -
  have h: "\<forall>c\<in>set [CHR 0x20, CHR 0x09, CHR 0x0A]. is_space c" by (simp add: is_space_def)
  have "whisper_line sample_whisper () [CHR 0x20, CHR 0x09, CHR 0x0A] = [] \<and>
      piper_line sample_piper () [CHR 0x20, CHR 0x09, CHR 0x0A] = [] \<and>
      whisper_serve sample_whisper () ([CHR 0x20, CHR 0x09, CHR 0x0A] # []) =
        ReadLine [CHR 0x20, CHR 0x09, CHR 0x0A] # whisper_serve sample_whisper () [] \<and>
      piper_serve sample_piper () ([CHR 0x20, CHR 0x09, CHR 0x0A] # []) =
        ReadLine [CHR 0x20, CHR 0x09, CHR 0x0A] # piper_serve sample_piper () []"
    using blank_line_writes_nothing [of "[CHR 0x20, CHR 0x09, CHR 0x0A]" sample_whisper "()" sample_piper "()" "[]"] h
    by blast
  then show ?thesis by simp
qed

subsection \<open>Resampling\<close>






text \<open>C6. When the two rates are equal, or the buffer is empty, resampling returns the
  buffer it was given; so an empty buffer stays empty at any pair of rates.\<close>

theorem resample_identity:
  "(from_rate = to_rate \<or> audio = [] \<longrightarrow> resample_linear audio from_rate to_rate = Inr audio)
   \<and> resample_linear audio from_rate from_rate = Inr audio
   \<and> resample_linear [] from_rate to_rate = Inr []"
  by (simp add: resample_linear_def)

theorem resample_identity_witness:
  "resample_linear [0.5, - 0.25] 44100 44100 = Inr [0.5, - 0.25] \<and>
   resample_linear [] 0 16000 = Inr []"
  using resample_identity [of 44100 44100 "[0.5, - 0.25]"] resample_identity [of 0 16000 "[]"]
  by simp



subsection \<open>Confidence\<close>

lemma clamp_bounds: "0 \<le> clamp v 0 1 \<and> clamp v 0 1 \<le> 1"
  by (simp add: clamp_def)


lemma segment_weight_floor: "4 / 10 \<le> segment_weight seg"
proof -
  have "(2::real) / 10 + 2 / 10 = 4 / 10" by simp
  moreover have "2 / 10 \<le> max (2 / 10 :: real) a" for a by simp
  ultimately show ?thesis
    unfolding segment_weight_def Let_def
    by (smt (verit) max.cobounded1)
qed

lemma foldl_aggregate_step:
  "foldl (aggregate_step fallback) (ws, tw) segments =
     (ws + sum_list (map (\<lambda>seg. get_or (seg_confidence seg) fallback * segment_weight seg) segments),
      tw + sum_list (map segment_weight segments))"
  by (induction segments arbitrary: ws tw) (simp_all add: aggregate_step_def Let_def add.assoc)

lemma aggregate_sums_eq:
  "aggregate_sums segments fallback =
     (sum_list (map (\<lambda>seg. get_or (seg_confidence seg) fallback * segment_weight seg) segments),
      sum_list (map segment_weight segments))"
  by (simp add: aggregate_sums_def foldl_aggregate_step)

lemma total_weight_lower: "4 / 10 * real (length segments) \<le> sum_list (map segment_weight segments)"
proof (induction segments)
  case Nil
  then show ?case by simp
next
  case (Cons seg segments)
  have "4 / 10 \<le> segment_weight seg" by (rule segment_weight_floor)
  then show ?case using Cons by (simp add: algebra_simps)
qed

lemma total_weight_positive:
  assumes "segments \<noteq> []"
  shows "0 < snd (aggregate_sums segments fallback)"
proof -
  have "0 < length segments" using assms by simp
  then have "0 < 4 / 10 * real (length segments)" by simp
  then have "0 < sum_list (map segment_weight segments)"
    using total_weight_lower [of segments] by linarith
  then show ?thesis by (simp add: aggregate_sums_eq)
qed

lemma aggregate_confidence_nonempty:
  assumes "segments \<noteq> []"
  shows "aggregate_confidence segments fallback =
     clamp (fst (aggregate_sums segments fallback) / snd (aggregate_sums segments fallback)) 0 1"
proof -
  have "\<not> snd (aggregate_sums segments fallback) \<le> 0"
    using total_weight_positive [OF assms, of fallback] by simp
  then show ?thesis using assms
    by (simp add: aggregate_confidence_def case_prod_beta)
qed

text \<open>C9. For a non-empty list of segments every weight is at least 0.4, so the total
  weight is positive, the fallback branch for a non-positive total is not taken, the
  result is the clamped weighted mean, and it lies between 0 and 1.\<close>

theorem aggregate_confidence_in_unit_interval:
  assumes "segments \<noteq> []"
  shows "(\<forall>seg \<in> set segments. 0.4 \<le> segment_weight seg)
       \<and> snd (aggregate_sums segments fallback) = sum_list (map segment_weight segments)
       \<and> 0 < snd (aggregate_sums segments fallback)
       \<and> aggregate_confidence segments fallback =
           clamp (fst (aggregate_sums segments fallback) / snd (aggregate_sums segments fallback)) 0.0 1.0
       \<and> 0 \<le> aggregate_confidence segments fallback
       \<and> aggregate_confidence segments fallback \<le> 1"
proof (intro conjI ballI)
  fix seg
  show "0.4 \<le> segment_weight seg" using segment_weight_floor [of seg] by simp
next
  show "snd (aggregate_sums segments fallback) = sum_list (map segment_weight segments)"
    by (simp add: aggregate_sums_eq)
next
  show "0 < snd (aggregate_sums segments fallback)" by (rule total_weight_positive [OF assms])
next
  show "aggregate_confidence segments fallback =
      clamp (fst (aggregate_sums segments fallback) / snd (aggregate_sums segments fallback)) 0.0 1.0"
    using aggregate_confidence_nonempty [OF assms, of fallback] by simp
next
  show "0 \<le> aggregate_confidence segments fallback"
    using aggregate_confidence_nonempty [OF assms, of fallback] clamp_bounds by simp
next
  show "aggregate_confidence segments fallback \<le> 1"
    using aggregate_confidence_nonempty [OF assms, of fallback] clamp_bounds by simp
qed

theorem aggregate_confidence_in_unit_interval_witness:
  "0.4 \<le> segment_weight sample_segment \<and>
   0 < snd (aggregate_sums [sample_segment] 0.75) \<and>
   0 \<le> aggregate_confidence [sample_segment] 0.75 \<and>
   aggregate_confidence [sample_segment] 0.75 \<le> 1"
proof -
  have h: "[sample_segment] \<noteq> []" by simp
  note t = aggregate_confidence_in_unit_interval [OF h, of "0.75"]
  have a: "0.4 \<le> segment_weight sample_segment" using conjunct1 [OF t] by simp
  show ?thesis using a t by blast
qed


lemma normalize_single:
  "normalize_segments [SegDict seg] = [normalize_segment seg]"
  by simp






subsection \<open>The shape of a response\<close>

lemma whisper_transcribe_shape:
  assumes "whisper_transcribe env model line request_id payload audio_b64 = Inr response"
  shows "\<exists>t lg c sg ms. response =
           [(''id'', request_id), (''success'', JBool True), (''text'', t), (''language'', lg),
            (''confidence'', c), (''segments'', sg), (''duration_ms'', ms)]"
  using assms
  by (auto simp: whisper_transcribe_def exc_bind_def Let_def split: sum.splits prod.splits)

lemma piper_synthesize_shape:
  assumes "piper_synthesize env voice line request_id payload text = Inr response"
  shows "\<exists>a r ms. response =
           [(''id'', request_id), (''success'', JBool True), (''audio_b64'', a),
            (''sample_rate'', r), (''duration_ms'', ms)]"
  using assms
  by (auto simp: piper_synthesize_def exc_bind_def Let_def split: sum.splits prod.splits)

lemma caught_raised_with:
  "caught (raised_with request_id r) =
     (case r of Inl e \<Rightarrow> failure request_id (exc_str e) | Inr response \<Rightarrow> response)"
  by (simp add: caught_def raised_with_def split: sum.splits)

lemma whisper_try_object:
  assumes "json_loads env line = Inr (JObj d)"
  shows "(\<exists>msg. caught (whisper_try env model line) = failure (dict_get d ''id'') msg)
       \<or> (\<exists>t lg c sg ms. caught (whisper_try env model line) =
             [(''id'', dict_get d ''id''), (''success'', JBool True), (''text'', t),
              (''language'', lg), (''confidence'', c), (''segments'', sg), (''duration_ms'', ms)])"
proof (cases "dict_get d ''command'' = JStr ''transcribe''")
  case False
  then have "caught (whisper_try env model line) =
      failure (dict_get d ''id'') (''Unsupported command: '' @ py_str env (dict_get d ''command''))"
    using assms by (simp add: whisper_try_def caught_def Let_def)
  then show ?thesis by blast
next
  case cmd: True
  show ?thesis
  proof (cases "\<exists>a. dict_get d ''audio_b64'' = JStr a \<and> a \<noteq> []")
    case False
    then have "caught (whisper_try env model line) = failure (dict_get d ''id'') ''audio_b64 is required''"
      using assms cmd by (auto simp: whisper_try_def caught_def Let_def split: json.splits)
    then show ?thesis by blast
  next
    case True
    then obtain a where a: "dict_get d ''audio_b64'' = JStr a" "a \<noteq> []" by blast
    have eq: "caught (whisper_try env model line) =
        caught (raised_with (dict_get d ''id'')
          (whisper_transcribe env model line (dict_get d ''id'') d a))"
      using assms cmd a by (simp add: whisper_try_def Let_def)
    show ?thesis
    proof (cases "whisper_transcribe env model line (dict_get d ''id'') d a")
      case (Inl e)
      then have "caught (whisper_try env model line) = failure (dict_get d ''id'') (exc_str e)"
        using eq by (simp add: caught_raised_with)
      then show ?thesis by blast
    next
      case (Inr response)
      then have "caught (whisper_try env model line) = response"
        using eq by (simp add: caught_raised_with)
      then show ?thesis using whisper_transcribe_shape [OF Inr] by auto
    qed
  qed
qed

lemma piper_try_object:
  assumes "json_loads env line = Inr (JObj d)"
  shows "(\<exists>msg. caught (piper_try env voice line) = failure (dict_get d ''id'') msg)
       \<or> (\<exists>a r ms. caught (piper_try env voice line) =
             [(''id'', dict_get d ''id''), (''success'', JBool True), (''audio_b64'', a),
              (''sample_rate'', r), (''duration_ms'', ms)])"
proof (cases "dict_get d ''command'' = JStr ''synthesize''")
  case False
  then have "caught (piper_try env voice line) =
      failure (dict_get d ''id'') (''Unsupported command: '' @ py_str env (dict_get d ''command''))"
    using assms by (simp add: piper_try_def caught_def Let_def)
  then show ?thesis by blast
next
  case cmd: True
  show ?thesis
  proof (cases "py_strip (py_str env (dict_get_default d ''text'' (JStr []))) = []")
    case True
    then have "caught (piper_try env voice line) = failure (dict_get d ''id'') ''Text cannot be empty''"
      using assms cmd by (simp add: piper_try_def caught_def Let_def)
    then show ?thesis by blast
  next
    case False
    have eq: "caught (piper_try env voice line) =
        caught (raised_with (dict_get d ''id'')
          (piper_synthesize env voice line (dict_get d ''id'') d
             (py_strip (py_str env (dict_get_default d ''text'' (JStr []))))))"
      using assms cmd False by (simp add: piper_try_def Let_def)
    show ?thesis
    proof (cases "piper_synthesize env voice line (dict_get d ''id'') d
             (py_strip (py_str env (dict_get_default d ''text'' (JStr []))))")
      case (Inl e)
      then have "caught (piper_try env voice line) = failure (dict_get d ''id'') (exc_str e)"
        using eq by (simp add: caught_raised_with)
      then show ?thesis by blast
    next
      case (Inr response)
      then have "caught (piper_try env voice line) = response"
        using eq by (simp add: caught_raised_with)
      then show ?thesis using piper_synthesize_shape [OF Inr] by auto
    qed
  qed
qed

lemma whisper_try_not_object:
  assumes "\<forall>d. json_loads env line \<noteq> Inr (JObj d)"
  shows "caught (whisper_try env model line) = failure JNull
           (case json_loads env line of
              Inl error \<Rightarrow> exc_str error
            | Inr v \<Rightarrow> exc_str (no_get_attribute v))"
proof (cases "json_loads env line")
  case (Inl e)
  then show ?thesis by (simp add: whisper_try_def caught_def)
next
  case (Inr v)
  then have "\<forall>d. v \<noteq> JObj d" using assms by simp
  then show ?thesis using Inr
    by (cases v) (simp_all add: whisper_try_def caught_def)
qed

lemma piper_try_not_object:
  assumes "\<forall>d. json_loads env line \<noteq> Inr (JObj d)"
  shows "caught (piper_try env voice line) = failure JNull
           (case json_loads env line of
              Inl error \<Rightarrow> exc_str error
            | Inr v \<Rightarrow> exc_str (no_get_attribute v))"
proof (cases "json_loads env line")
  case (Inl e)
  then show ?thesis by (simp add: piper_try_def caught_def)
next
  case (Inr v)
  then have "\<forall>d. v \<noteq> JObj d" using assms by simp
  then show ?thesis using Inr
    by (cases v) (simp_all add: piper_try_def caught_def)
qed

lemma whisper_line_nonblank:
  "py_strip raw_line \<noteq> [] \<Longrightarrow>
   whisper_line env model raw_line = [caught (whisper_try env model (py_strip raw_line))]"
  by (simp add: whisper_line_def Let_def)

lemma piper_line_nonblank:
  "py_strip raw_line \<noteq> [] \<Longrightarrow>
   piper_line env voice raw_line = [caught (piper_try env voice (py_strip raw_line))]"
  by (simp add: piper_line_def Let_def)



lemma whisper_line_shape:
  assumes "l \<in> set (whisper_line env model raw_line)"
  shows "(\<exists>rid msg. l = failure rid msg)
       \<or> (\<exists>rid t lg c sg ms. l =
             [(''id'', rid), (''success'', JBool True), (''text'', t), (''language'', lg),
              (''confidence'', c), (''segments'', sg), (''duration_ms'', ms)])"
proof -
  have ne: "py_strip raw_line \<noteq> []" using assms by (auto simp: whisper_line_def)
  then have l: "l = caught (whisper_try env model (py_strip raw_line))"
    using assms by (simp add: whisper_line_nonblank)
  show ?thesis
  proof (cases "\<exists>d. json_loads env (py_strip raw_line) = Inr (JObj d)")
    case True
    then obtain d where "json_loads env (py_strip raw_line) = Inr (JObj d)" by blast
    from whisper_try_object [OF this, of model] show ?thesis unfolding l by blast
  next
    case False
    then have "\<forall>d. json_loads env (py_strip raw_line) \<noteq> Inr (JObj d)" by simp
    from whisper_try_not_object [OF this, of model] show ?thesis unfolding l by blast
  qed
qed

lemma piper_line_shape:
  assumes "l \<in> set (piper_line env voice raw_line)"
  shows "(\<exists>rid msg. l = failure rid msg)
       \<or> (\<exists>rid a r ms. l =
             [(''id'', rid), (''success'', JBool True), (''audio_b64'', a),
              (''sample_rate'', r), (''duration_ms'', ms)])"
proof -
  have ne: "py_strip raw_line \<noteq> []" using assms by (auto simp: piper_line_def)
  then have l: "l = caught (piper_try env voice (py_strip raw_line))"
    using assms by (simp add: piper_line_nonblank)
  show ?thesis
  proof (cases "\<exists>d. json_loads env (py_strip raw_line) = Inr (JObj d)")
    case True
    then obtain d where "json_loads env (py_strip raw_line) = Inr (JObj d)" by blast
    from piper_try_object [OF this, of voice] show ?thesis unfolding l by blast
  next
    case False
    then have "\<forall>d. json_loads env (py_strip raw_line) \<noteq> Inr (JObj d)" by simp
    from piper_try_not_object [OF this, of voice] show ?thesis unfolding l by blast
  qed
qed

lemma emitted_by_whisper_serve:
  "Emit l \<in> set (whisper_serve env model lines) \<Longrightarrow> \<exists>raw_line. l \<in> set (whisper_line env model raw_line)"
  by (induction lines) auto

lemma emitted_by_piper_serve:
  "Emit l \<in> set (piper_serve env voice lines) \<Longrightarrow> \<exists>raw_line. l \<in> set (piper_line env voice raw_line)"
  by (induction lines) auto

lemma whisper_serve_shape:
  assumes "Emit l \<in> set (whisper_serve env model lines)"
  shows "(\<exists>rid msg. l = failure rid msg)
       \<or> (\<exists>rid t lg c sg ms. l =
             [(''id'', rid), (''success'', JBool True), (''text'', t), (''language'', lg),
              (''confidence'', c), (''segments'', sg), (''duration_ms'', ms)])"
proof -
  obtain raw_line where "l \<in> set (whisper_line env model raw_line)"
    using emitted_by_whisper_serve [OF assms] by (rule exE)
  then show ?thesis by (rule whisper_line_shape)
qed

lemma piper_serve_shape:
  assumes "Emit l \<in> set (piper_serve env voice lines)"
  shows "(\<exists>rid msg. l = failure rid msg)
       \<or> (\<exists>rid a r ms. l =
             [(''id'', rid), (''success'', JBool True), (''audio_b64'', a),
              (''sample_rate'', r), (''duration_ms'', ms)])"
proof -
  obtain raw_line where "l \<in> set (piper_line env voice raw_line)"
    using emitted_by_piper_serve [OF assms] by (rule exE)
  then show ?thesis by (rule piper_line_shape)
qed

lemma whisper_serve_no_event:
  assumes "Emit l \<in> set (whisper_serve env model lines)"
  shows "map_of l ''event'' = None"
  using whisper_serve_shape [OF assms] by (auto simp: failure_def)

lemma piper_serve_no_event:
  assumes "Emit l \<in> set (piper_serve env voice lines)"
  shows "map_of l ''event'' = None"
  using piper_serve_shape [OF assms] by (auto simp: failure_def)

lemma whisper_serve_failed:
  assumes "Emit l \<in> set (whisper_serve env model lines)" and "map_of l ''success'' = Some (JBool False)"
  shows "\<exists>rid msg. l = [(''id'', rid), (''success'', JBool False), (''error'', JStr msg)]"
  using whisper_serve_shape [OF assms(1)] assms(2) by (auto simp: failure_def)

lemma piper_serve_failed:
  assumes "Emit l \<in> set (piper_serve env voice lines)" and "map_of l ''success'' = Some (JBool False)"
  shows "\<exists>rid msg. l = [(''id'', rid), (''success'', JBool False), (''error'', JStr msg)]"
  using piper_serve_shape [OF assms(1)] assms(2) by (auto simp: failure_def)


subsection \<open>Startup\<close>

text \<open>C2. If loading the model raises, the worker writes the one error event and returns
  status 1: nothing else is written and no line is read. If loading succeeds, the first
  thing the worker does is write the ready event, before it reads any line, and no later
  line carries an \<open>event\<close> field, so the ready event is written exactly once.\<close>

theorem startup_event_first:
  "(load_model wenv (get_or (getenv wenv ''WHISPER_MODEL'') ''small'')
                    (get_or (getenv wenv ''WHISPER_DEVICE'') ''cpu'') = Inl werror \<longrightarrow>
      whisper_main wenv stdin =
        ([Emit [(''event'', JStr ''error''), (''success'', JBool False),
                (''error'', JStr (''Failed to load Whisper model '' @ [CHR 0x27]
                                 @ get_or (getenv wenv ''WHISPER_MODEL'') ''small''
                                 @ [CHR 0x27] @ '': '' @ exc_str werror))]], 1))
   \<and> (load_model wenv (get_or (getenv wenv ''WHISPER_MODEL'') ''small'')
                      (get_or (getenv wenv ''WHISPER_DEVICE'') ''cpu'') = Inr model \<longrightarrow>
      whisper_main wenv stdin =
        (Emit [(''event'', JStr ''ready''), (''success'', JBool True),
               (''model'', JStr (get_or (getenv wenv ''WHISPER_MODEL'') ''small'')),
               (''device'', JStr (get_or (getenv wenv ''WHISPER_DEVICE'') ''cpu'')),
               (''startup_ms'', JInt (startup_ms wenv))]
           # whisper_serve wenv model stdin, 0)
      \<and> (\<forall>l. Emit l \<in> set (whisper_serve wenv model stdin) \<longrightarrow> map_of l ''event'' = None))
   \<and> (load_voice penv = Inl perror \<longrightarrow>
      piper_main penv stdin =
        ([Emit [(''event'', JStr ''error''), (''success'', JBool False),
                (''error'', JStr (''Failed to load Piper voice: '' @ exc_str perror))]], 1))
   \<and> (load_voice penv = Inr voice \<longrightarrow>
      piper_main penv stdin =
        (Emit [(''event'', JStr ''ready''), (''success'', JBool True),
               (''startup_ms'', JInt (startup_ms penv))]
           # piper_serve penv voice stdin, 0)
      \<and> (\<forall>l. Emit l \<in> set (piper_serve penv voice stdin) \<longrightarrow> map_of l ''event'' = None))"
proof (intro conjI impI allI)
  assume "load_model wenv (get_or (getenv wenv ''WHISPER_MODEL'') ''small'')
            (get_or (getenv wenv ''WHISPER_DEVICE'') ''cpu'') = Inl werror"
  then show "whisper_main wenv stdin =
        ([Emit [(''event'', JStr ''error''), (''success'', JBool False),
                (''error'', JStr (''Failed to load Whisper model '' @ [CHR 0x27]
                                 @ get_or (getenv wenv ''WHISPER_MODEL'') ''small''
                                 @ [CHR 0x27] @ '': '' @ exc_str werror))]], 1)"
    by (simp add: whisper_main_def Let_def)
next
  assume "load_model wenv (get_or (getenv wenv ''WHISPER_MODEL'') ''small'')
            (get_or (getenv wenv ''WHISPER_DEVICE'') ''cpu'') = Inr model"
  then show "whisper_main wenv stdin =
        (Emit [(''event'', JStr ''ready''), (''success'', JBool True),
               (''model'', JStr (get_or (getenv wenv ''WHISPER_MODEL'') ''small'')),
               (''device'', JStr (get_or (getenv wenv ''WHISPER_DEVICE'') ''cpu'')),
               (''startup_ms'', JInt (startup_ms wenv))]
           # whisper_serve wenv model stdin, 0)"
    by (simp add: whisper_main_def Let_def)
next
  fix l assume "Emit l \<in> set (whisper_serve wenv model stdin)"
  then show "map_of l ''event'' = None" by (rule whisper_serve_no_event)
next
  assume "load_voice penv = Inl perror"
  then show "piper_main penv stdin =
        ([Emit [(''event'', JStr ''error''), (''success'', JBool False),
                (''error'', JStr (''Failed to load Piper voice: '' @ exc_str perror))]], 1)"
    by (simp add: piper_main_def)
next
  assume "load_voice penv = Inr voice"
  then show "piper_main penv stdin =
        (Emit [(''event'', JStr ''ready''), (''success'', JBool True),
               (''startup_ms'', JInt (startup_ms penv))]
           # piper_serve penv voice stdin, 0)"
    by (simp add: piper_main_def)
next
  fix l assume "Emit l \<in> set (piper_serve penv voice stdin)"
  then show "map_of l ''event'' = None" by (rule piper_serve_no_event)
qed

lemma sample_whisper_loads:
  "load_model sample_whisper (get_or (getenv sample_whisper ''WHISPER_MODEL'') ''small'')
     (get_or (getenv sample_whisper ''WHISPER_DEVICE'') ''cpu'') = Inr ()"
  by (simp add: sample_whisper_def)

lemma broken_whisper_fails:
  "load_model broken_whisper (get_or (getenv broken_whisper ''WHISPER_MODEL'') ''small'')
     (get_or (getenv broken_whisper ''WHISPER_DEVICE'') ''cpu'') = Inl (RuntimeError ''model not found'')"
  by (simp add: broken_whisper_def sample_whisper_def)

lemma sample_piper_loads: "load_voice sample_piper = Inr ()"
  by (simp add: load_voice_def sample_piper_def Let_def)

lemma broken_piper_fails: "load_voice broken_piper = Inl (RuntimeError ''PIPER_MODEL_PATH is required'')"
  by (simp add: load_voice_def broken_piper_def sample_piper_def)

theorem startup_event_first_witness:
  "whisper_main broken_whisper [''{}''] =
     ([Emit [(''event'', JStr ''error''), (''success'', JBool False),
             (''error'', JStr (''Failed to load Whisper model '' @ [CHR 0x27] @ ''small'' @ [CHR 0x27]
                              @ '': model not found''))]], 1)
   \<and> piper_main broken_piper [''{}''] =
     ([Emit [(''event'', JStr ''error''), (''success'', JBool False),
             (''error'', JStr ''Failed to load Piper voice: PIPER_MODEL_PATH is required'')]], 1)
   \<and> whisper_main sample_whisper [''{}''] =
     (Emit [(''event'', JStr ''ready''), (''success'', JBool True), (''model'', JStr ''small''),
            (''device'', JStr ''cpu''), (''startup_ms'', JInt 1200)]
        # whisper_serve sample_whisper () [''{}''], 0)
   \<and> piper_main sample_piper [''{}''] =
     (Emit [(''event'', JStr ''ready''), (''success'', JBool True), (''startup_ms'', JInt 800)]
        # piper_serve sample_piper () [''{}''], 0)"
proof -
  note bad = startup_event_first [of broken_whisper "RuntimeError ''model not found''" "[''{}'']" "()"
      broken_piper "RuntimeError ''PIPER_MODEL_PATH is required''" "()"]
  note good = startup_event_first [of sample_whisper "RuntimeError []" "[''{}'']" "()"
      sample_piper "RuntimeError []" "()"]
  have b1: "whisper_main broken_whisper [''{}''] =
     ([Emit [(''event'', JStr ''error''), (''success'', JBool False),
             (''error'', JStr (''Failed to load Whisper model '' @ [CHR 0x27]
                              @ get_or (getenv broken_whisper ''WHISPER_MODEL'') ''small''
                              @ [CHR 0x27] @ '': '' @ exc_str (RuntimeError ''model not found'')))]], 1)"
    using conjunct1 [OF bad] broken_whisper_fails by (rule mp)
  have b2: "piper_main broken_piper [''{}''] =
     ([Emit [(''event'', JStr ''error''), (''success'', JBool False),
             (''error'', JStr (''Failed to load Piper voice: ''
                              @ exc_str (RuntimeError ''PIPER_MODEL_PATH is required'')))]], 1)"
    using conjunct1 [OF conjunct2 [OF conjunct2 [OF bad]]] broken_piper_fails by (rule mp)
  have g1: "whisper_main sample_whisper [''{}''] =
        (Emit [(''event'', JStr ''ready''), (''success'', JBool True),
               (''model'', JStr (get_or (getenv sample_whisper ''WHISPER_MODEL'') ''small'')),
               (''device'', JStr (get_or (getenv sample_whisper ''WHISPER_DEVICE'') ''cpu'')),
               (''startup_ms'', JInt (startup_ms sample_whisper))]
           # whisper_serve sample_whisper () [''{}''], 0)"
    using mp [OF conjunct1 [OF conjunct2 [OF good]] sample_whisper_loads] by (rule conjunct1)
  have g2: "piper_main sample_piper [''{}''] =
        (Emit [(''event'', JStr ''ready''), (''success'', JBool True),
               (''startup_ms'', JInt (startup_ms sample_piper))]
           # piper_serve sample_piper () [''{}''], 0)"
    using mp [OF conjunct2 [OF conjunct2 [OF conjunct2 [OF good]]] sample_piper_loads] by (rule conjunct1)
  have e: "getenv broken_whisper ''WHISPER_MODEL'' = None" "getenv sample_whisper ''WHISPER_MODEL'' = None"
    "getenv sample_whisper ''WHISPER_DEVICE'' = None" "startup_ms sample_whisper = 1200"
    "startup_ms sample_piper = 800"
    by (simp_all add: broken_whisper_def sample_whisper_def sample_piper_def)
  show ?thesis
    by (intro conjI) (simp_all only: b1 b2 g1 g2 e get_or_def option.case exc_str.simps append.simps)
qed


subsection \<open>Failed lines\<close>

text \<open>C3. A line written by either worker with \<open>success\<close> false has exactly three
  fields: the correlation field (\<open>id\<close> for a response, \<open>event\<close> for the startup
  event), the success flag, and the error string. No result field is in it.\<close>

theorem failure_lines_carry_only_error:
  "(\<forall>l. Emit l \<in> set (fst (whisper_main wenv stdin)) \<longrightarrow>
        map_of l ''success'' = Some (JBool False) \<longrightarrow>
        (\<exists>c msg. l = [(''id'', c), (''success'', JBool False), (''error'', JStr msg)]
               \<or> l = [(''event'', JStr ''error''), (''success'', JBool False), (''error'', JStr msg)]))
   \<and> (\<forall>l. Emit l \<in> set (fst (piper_main penv stdin)) \<longrightarrow>
        map_of l ''success'' = Some (JBool False) \<longrightarrow>
        (\<exists>c msg. l = [(''id'', c), (''success'', JBool False), (''error'', JStr msg)]
               \<or> l = [(''event'', JStr ''error''), (''success'', JBool False), (''error'', JStr msg)]))"
proof (intro conjI allI impI)
  fix l
  assume em: "Emit l \<in> set (fst (whisper_main wenv stdin))"
    and f: "map_of l ''success'' = Some (JBool False)"
  show "\<exists>c msg. l = [(''id'', c), (''success'', JBool False), (''error'', JStr msg)]
               \<or> l = [(''event'', JStr ''error''), (''success'', JBool False), (''error'', JStr msg)]"
  proof (cases "load_model wenv (get_or (getenv wenv ''WHISPER_MODEL'') ''small'')
                  (get_or (getenv wenv ''WHISPER_DEVICE'') ''cpu'')")
    case (Inl e)
    then have "\<exists>msg. l = [(''event'', JStr ''error''), (''success'', JBool False), (''error'', JStr msg)]"
      using em by (simp add: whisper_main_def Let_def)
    then show ?thesis by (elim exE) (intro exI disjI2)
  next
    case (Inr model)
    then have "Emit l \<in> set (whisper_serve wenv model stdin)"
      using em f by (auto simp: whisper_main_def Let_def)
    from whisper_serve_failed [OF this f]
    show ?thesis by (elim exE) (intro exI disjI1)
  qed
next
  fix l
  assume em: "Emit l \<in> set (fst (piper_main penv stdin))"
    and f: "map_of l ''success'' = Some (JBool False)"
  show "\<exists>c msg. l = [(''id'', c), (''success'', JBool False), (''error'', JStr msg)]
               \<or> l = [(''event'', JStr ''error''), (''success'', JBool False), (''error'', JStr msg)]"
  proof (cases "load_voice penv")
    case (Inl e)
    then have "\<exists>msg. l = [(''event'', JStr ''error''), (''success'', JBool False), (''error'', JStr msg)]"
      using em by (simp add: piper_main_def)
    then show ?thesis by (elim exE) (intro exI disjI2)
  next
    case (Inr voice)
    then have "Emit l \<in> set (piper_serve penv voice stdin)"
      using em f by (auto simp: piper_main_def)
    from piper_serve_failed [OF this f]
    show ?thesis by (elim exE) (intro exI disjI1)
  qed
qed


lemma sample_whisper_not_json:
  "whisper_main sample_whisper [''not json''] =
     ([Emit [(''event'', JStr ''ready''), (''success'', JBool True), (''model'', JStr ''small''),
             (''device'', JStr ''cpu''), (''startup_ms'', JInt 1200)],
       ReadLine ''not json'',
       Emit [(''id'', JNull), (''success'', JBool False),
             (''error'', JStr ''Expecting value: line 1 column 1 (char 0)'')]], 0)"
  by (simp add: whisper_main_def sample_whisper_def get_or_def whisper_line_def py_strip_def
      is_space_def whisper_try_def sample_loads_def caught_def failure_def transcribe_line_def
      synthesize_line_def quoted_def)

lemma broken_piper_main:
  "piper_main broken_piper [''not json''] =
     ([Emit [(''event'', JStr ''error''), (''success'', JBool False),
             (''error'', JStr ''Failed to load Piper voice: PIPER_MODEL_PATH is required'')]], 1)"
  by (simp add: piper_main_def broken_piper_fails)

theorem failure_lines_carry_only_error_witness:
  "Emit [(''id'', JNull), (''success'', JBool False),
         (''error'', JStr ''Expecting value: line 1 column 1 (char 0)'')]
     \<in> set (fst (whisper_main sample_whisper [''not json'']))
   \<and> (\<exists>c msg. [(''id'', JNull), (''success'', JBool False),
                 (''error'', JStr ''Expecting value: line 1 column 1 (char 0)'')]
                = [(''id'', c), (''success'', JBool False), (''error'', JStr msg)]
              \<or> [(''id'', JNull), (''success'', JBool False),
                 (''error'', JStr ''Expecting value: line 1 column 1 (char 0)'')]
                = [(''event'', JStr ''error''), (''success'', JBool False), (''error'', JStr msg)])
   \<and> Emit [(''event'', JStr ''error''), (''success'', JBool False),
           (''error'', JStr ''Failed to load Piper voice: PIPER_MODEL_PATH is required'')]
     \<in> set (fst (piper_main broken_piper [''not json'']))
   \<and> (\<exists>c msg. [(''event'', JStr ''error''), (''success'', JBool False),
                 (''error'', JStr ''Failed to load Piper voice: PIPER_MODEL_PATH is required'')]
                = [(''id'', c), (''success'', JBool False), (''error'', JStr msg)]
              \<or> [(''event'', JStr ''error''), (''success'', JBool False),
                 (''error'', JStr ''Failed to load Piper voice: PIPER_MODEL_PATH is required'')]
                = [(''event'', JStr ''error''), (''success'', JBool False), (''error'', JStr msg)])"
proof -
  note t = failure_lines_carry_only_error [of sample_whisper "[''not json'']" broken_piper]
  have m1: "Emit [(''id'', JNull), (''success'', JBool False),
         (''error'', JStr ''Expecting value: line 1 column 1 (char 0)'')]
     \<in> set (fst (whisper_main sample_whisper [''not json'']))"
    by (simp add: sample_whisper_not_json)
  have f1: "map_of [(''id'', JNull), (''success'', JBool False),
         (''error'', JStr ''Expecting value: line 1 column 1 (char 0)'')] ''success'' = Some (JBool False)"
    by simp
  have m2: "Emit [(''event'', JStr ''error''), (''success'', JBool False),
           (''error'', JStr ''Failed to load Piper voice: PIPER_MODEL_PATH is required'')]
     \<in> set (fst (piper_main broken_piper [''not json'']))"
    by (simp add: broken_piper_main)
  have f2: "map_of [(''event'', JStr ''error''), (''success'', JBool False),
           (''error'', JStr ''Failed to load Piper voice: PIPER_MODEL_PATH is required'')] ''success''
      = Some (JBool False)"
    by simp
  note c1 = mp [OF mp [OF spec [OF conjunct1 [OF t]] m1] f1]
  note c2 = mp [OF mp [OF spec [OF conjunct2 [OF t]] m2] f2]
  show ?thesis using m1 m2 c1 c2 by (intro conjI)
qed

subsection \<open>Malformed lines\<close>



subsection \<open>The id of a response\<close>

lemma whisper_object_id:
  assumes "json_loads env line = Inr (JObj d)"
  shows "map_of (caught (whisper_try env model line)) ''id'' = Some (dict_get d ''id'')"
  using whisper_try_object [OF assms, of model] by (auto simp: failure_def)

lemma piper_object_id:
  assumes "json_loads env line = Inr (JObj d)"
  shows "map_of (caught (piper_try env voice line)) ''id'' = Some (dict_get d ''id'')"
  using piper_try_object [OF assms, of voice] by (auto simp: failure_def)

lemma dict_get_id:
  "dict_get d ''id'' = (case map_of d ''id'' of None \<Rightarrow> JNull | Some v \<Rightarrow> v)"
  by (simp add: dict_get_def dict_get_default_def)

text \<open>C4, as the code has it. A line that parses as a JSON object gets exactly one
  response, success or failure, and its \<open>id\<close> field is always present: it holds the
  value of the request's \<open>id\<close> field unchanged when the request has one, and \<open>null\<close>
  when the request has none. The absence of the field is therefore not echoed as an
  absence: a request without \<open>id\<close> and a request with \<open>id: null\<close> get the same
  \<open>id\<close> in their responses.\<close>

theorem response_echoes_id:
  assumes "py_strip raw_line \<noteq> []"
  shows "(json_loads wenv (py_strip raw_line) = Inr (JObj d) \<longrightarrow>
            (\<exists>l. whisper_line wenv model raw_line = [l] \<and>
                 map_of l ''id'' = Some (case map_of d ''id'' of None \<Rightarrow> JNull | Some v \<Rightarrow> v)))
       \<and> (json_loads penv (py_strip raw_line) = Inr (JObj d) \<longrightarrow>
            (\<exists>l. piper_line penv voice raw_line = [l] \<and>
                 map_of l ''id'' = Some (case map_of d ''id'' of None \<Rightarrow> JNull | Some v \<Rightarrow> v)))"
proof (intro conjI impI)
  assume "json_loads wenv (py_strip raw_line) = Inr (JObj d)"
  from whisper_object_id [OF this, of model]
  have "map_of (caught (whisper_try wenv model (py_strip raw_line))) ''id'' =
      Some (case map_of d ''id'' of None \<Rightarrow> JNull | Some v \<Rightarrow> v)"
    by (simp only: dict_get_id)
  then show "\<exists>l. whisper_line wenv model raw_line = [l] \<and>
      map_of l ''id'' = Some (case map_of d ''id'' of None \<Rightarrow> JNull | Some v \<Rightarrow> v)"
    by (simp add: whisper_line_nonblank [OF assms])
next
  assume "json_loads penv (py_strip raw_line) = Inr (JObj d)"
  from piper_object_id [OF this, of voice]
  have "map_of (caught (piper_try penv voice (py_strip raw_line))) ''id'' =
      Some (case map_of d ''id'' of None \<Rightarrow> JNull | Some v \<Rightarrow> v)"
    by (simp only: dict_get_id)
  then show "\<exists>l. piper_line penv voice raw_line = [l] \<and>
      map_of l ''id'' = Some (case map_of d ''id'' of None \<Rightarrow> JNull | Some v \<Rightarrow> v)"
    by (simp add: piper_line_nonblank [OF assms])
qed

lemma strip_synthesize_line: "py_strip synthesize_line = synthesize_line"
  by (simp add: py_strip_def synthesize_line_def quoted_def is_space_def)

lemma strip_transcribe_line: "py_strip transcribe_line = transcribe_line"
  by (simp add: py_strip_def transcribe_line_def quoted_def is_space_def)

lemma lines_differ: "transcribe_line \<noteq> synthesize_line" "transcribe_line \<noteq> ''{}''"
  "transcribe_line \<noteq> ''[1]''" "synthesize_line \<noteq> ''{}''" "synthesize_line \<noteq> ''[1]''"
  by (simp_all add: transcribe_line_def synthesize_line_def quoted_def)

theorem response_echoes_id_witness:
  "(\<exists>l. whisper_line sample_whisper () synthesize_line = [l] \<and> map_of l ''id'' = Some (JStr ''1''))
   \<and> (\<exists>l. piper_line sample_piper () synthesize_line = [l] \<and> map_of l ''id'' = Some (JStr ''1''))"
proof -
  have h: "py_strip synthesize_line \<noteq> []"
    by (simp add: strip_synthesize_line) (simp add: synthesize_line_def)
  have lw: "json_loads sample_whisper (py_strip synthesize_line) =
      Inr (JObj [(''id'', JStr ''1''), (''command'', JStr ''synthesize''), (''text'', JStr ''hello'')])"
    using lines_differ by (simp add: strip_synthesize_line sample_whisper_def sample_loads_def)
  have lp: "json_loads sample_piper (py_strip synthesize_line) =
      Inr (JObj [(''id'', JStr ''1''), (''command'', JStr ''synthesize''), (''text'', JStr ''hello'')])"
    using lines_differ by (simp add: strip_synthesize_line sample_piper_def sample_loads_def)
  note t = response_echoes_id [OF h, of sample_whisper
      "[(''id'', JStr ''1''), (''command'', JStr ''synthesize''), (''text'', JStr ''hello'')]"
      "()" sample_piper "()"]
  have w: "\<exists>l. whisper_line sample_whisper () synthesize_line = [l] \<and>
      map_of l ''id'' = Some (case map_of [(''id'', JStr ''1''), (''command'', JStr ''synthesize''),
                                            (''text'', JStr ''hello'')] ''id'' of
                                None \<Rightarrow> JNull | Some v \<Rightarrow> v)"
    using conjunct1 [OF t] lw by (rule mp)
  have p: "\<exists>l. piper_line sample_piper () synthesize_line = [l] \<and>
      map_of l ''id'' = Some (case map_of [(''id'', JStr ''1''), (''command'', JStr ''synthesize''),
                                            (''text'', JStr ''hello'')] ''id'' of
                                None \<Rightarrow> JNull | Some v \<Rightarrow> v)"
    using conjunct2 [OF t] lp by (rule mp)
  show ?thesis using w p by simp
qed

text \<open>The claim as it is written fails on a request without an \<open>id\<close> field: the line
  \<open>{}\<close> parses as the empty object, and the response to it has an \<open>id\<close> field, holding
  \<open>null\<close>.\<close>

theorem absent_id_counterexample:
  "json_loads sample_whisper (py_strip ''{}'') = Inr (JObj [])
   \<and> whisper_line sample_whisper () ''{}'' =
       [ [(''id'', JNull), (''success'', JBool False), (''error'', JStr ''Unsupported command: None'')]]
   \<and> map_of [(''id'', JNull), (''success'', JBool False),
             (''error'', JStr ''Unsupported command: None'')] ''id'' = Some JNull
   \<and> map_of ([] :: pydict) ''id'' = None"
proof -
  have s: "py_strip ''{}'' = ''{}''" by (simp add: py_strip_def is_space_def)
  have l: "json_loads sample_whisper ''{}'' = Inr (JObj [])"
    by (simp add: sample_whisper_def sample_loads_def)
  have w: "whisper_line sample_whisper () ''{}'' =
       [ [(''id'', JNull), (''success'', JBool False), (''error'', JStr ''Unsupported command: None'')]]"
    by (simp add: whisper_line_def s whisper_try_def l Let_def dict_get_def dict_get_default_def
        py_str_def caught_def failure_def)
  show ?thesis by (simp add: s l w)
qed

subsection \<open>WAV decoding\<close>













text \<open>Frame data that is not a whole number of samples, as the \<^verbatim>\<open>wave\<close> module
  returns it for a truncated file, is refused by \<^verbatim>\<open>np.frombuffer\<close>.\<close>

lemma decode_partial_sample:
  assumes "reader wav_bytes = Inr wav" and "sampwidth wav = 2"
    and "length (frame_bytes wav) mod 2 \<noteq> 0"
  shows "wav_bytes_to_float32 reader wav_bytes =
     Inl (ValueError ''buffer size must be a multiple of element size'')"
  using assms by (simp add: wav_bytes_to_float32_def Let_def exc_bind_def frombuffer_def)







end
